theory Spec2Isabelle
  imports Complex_Main
begin

section \<open>Raw records\<close>

text \<open>
  \<^verbatim>\<open>etl.py\<close> reads two JSON collections with \<^verbatim>\<open>spark.read.json\<close>. Every column of
  a data frame read that way is nullable, so every field is an \<open>option\<close>: \<open>None\<close> is SQL's
  NULL. Only the fields that the queries of \<^verbatim>\<open>etl.py\<close> name are kept. A DOUBLE column is
  only ever copied and compared here, so a finite double is the rational it stands for.
\<close>

type_synonym double = rat

record catalog_record =
  song_id :: "string option"
  title :: "string option"
  artist_id :: "string option"
  artist_name :: "string option"
  artist_location :: "string option"
  artist_latitude :: "double option"
  artist_longitude :: "double option"
  year :: "int option"
  duration :: "double option"

record activity_record =
  page :: "string option"
  ts :: "int option"
  userId :: "string option"
  firstName :: "string option"
  lastName :: "string option"
  gender :: "string option"
  level :: "string option"
  sessionId :: "int option"
  location :: "string option"
  userAgent :: "string option"
  song :: "string option"

section \<open>The five tables\<close>

text \<open>
  One record per SELECT list, the fields in the order of the query and under the names the
  query gives them (\<^verbatim>\<open>lattitude\<close> is the source's spelling), with a prefix per table. A
  table is the list of its rows; Spark fixes no row order, and no statement below depends
  on one.
\<close>

record songs_row =
  s_song_id :: "string option"
  s_title :: "string option"
  s_artist_id :: "string option"
  s_year :: "int option"
  s_duration :: "double option"

record artists_row =
  a_artist_id :: "string option"
  a_name :: "string option"
  a_location :: "string option"
  a_lattitude :: "double option"
  a_longitude :: "double option"

record users_row =
  u_user_id :: "string option"
  u_first_name :: "string option"
  u_last_name :: "string option"
  u_gender :: "string option"
  u_level :: "string option"

text \<open>A TIMESTAMP is Spark's: microseconds since the epoch.\<close>

record time_row =
  t_start_time :: "int option"
  t_hour :: "int option"
  t_day :: "int option"
  t_week :: "int option"
  t_month :: "int option"
  t_year :: "int option"
  t_weekday :: "int option"

text \<open>\<^verbatim>\<open>FROM_UNIXTIME\<close> returns a STRING, so \<open>sp_start_time\<close> is text.\<close>

record songplays_row =
  songplay_id :: int
  sp_start_time :: "string option"
  sp_user_id :: "string option"
  sp_level :: "string option"
  sp_song_id :: "string option"
  sp_artist_id :: "string option"
  sp_session_id :: "int option"
  sp_location :: "string option"
  sp_user_agent :: "string option"

datatype dataframe =
    Songs "songs_row list"
  | Artists "artists_row list"
  | Users "users_row list"
  | Time "time_row list"
  | Songplays "songplays_row list"

section \<open>Calendar functions of the engine\<close>

text \<open>
  The session's time zone is a parameter: the offset from UTC, in seconds, in force at a
  given epoch second. Dates are those of the proleptic Gregorian calendar, computed from
  the day number (days since 1970-01-01) by the usual era/year-of-era arithmetic.
\<close>

type_synonym time_zone = "int \<Rightarrow> int"

definition civil_from_days :: "int \<Rightarrow> int \<times> int \<times> int" where
  "civil_from_days z0 =
     (let z = z0 + 719468;
          era = z div 146097;
          doe = z - era * 146097;
          yoe = (doe - doe div 1460 + doe div 36524 - doe div 146096) div 365;
          doy = doe - (365 * yoe + yoe div 4 - yoe div 100);
          mp = (5 * doy + 2) div 153;
          d = doy - (153 * mp + 2) div 5 + 1;
          m = (if mp < 10 then mp + 3 else mp - 9);
          y = yoe + era * 400 + (if m \<le> 2 then 1 else 0)
      in (y, m, d))"

definition days_from_civil :: "int \<Rightarrow> int \<Rightarrow> int \<Rightarrow> int" where
  "days_from_civil y0 m d =
     (let y = (if m \<le> 2 then y0 - 1 else y0);
          era = y div 400;
          yoe = y - era * 400;
          doy = (153 * (if m > 2 then m - 3 else m + 9) + 2) div 5 + d - 1;
          doe = yoe * 365 + yoe div 4 - yoe div 100 + doy
      in era * 146097 + doe - 719468)"

definition local_seconds :: "time_zone \<Rightarrow> int \<Rightarrow> int" where
  "local_seconds tz secs = secs + tz secs"

text \<open>The wall-clock second of a TIMESTAMP: its microseconds floored to seconds, shifted.\<close>

definition local_of_micros :: "time_zone \<Rightarrow> int \<Rightarrow> int" where
  "local_of_micros tz us = local_seconds tz (us div 1000000)"

definition sql_hour :: "time_zone \<Rightarrow> int \<Rightarrow> int" where
  "sql_hour tz us = local_of_micros tz us mod 86400 div 3600"

definition sql_year :: "time_zone \<Rightarrow> int \<Rightarrow> int" where
  "sql_year tz us = fst (civil_from_days (local_of_micros tz us div 86400))"

definition sql_month :: "time_zone \<Rightarrow> int \<Rightarrow> int" where
  "sql_month tz us = fst (snd (civil_from_days (local_of_micros tz us div 86400)))"

definition sql_day :: "time_zone \<Rightarrow> int \<Rightarrow> int" where
  "sql_day tz us = snd (snd (civil_from_days (local_of_micros tz us div 86400)))"

text \<open>\<^verbatim>\<open>dayofweek\<close>: 1 is Sunday, 7 is Saturday; day number 0 was a Thursday.\<close>

definition sql_dayofweek :: "time_zone \<Rightarrow> int \<Rightarrow> int" where
  "sql_dayofweek tz us = (local_of_micros tz us div 86400 + 4) mod 7 + 1"

text \<open>\<^verbatim>\<open>weekofyear\<close>: the ISO 8601 week, the week of the year that holds its Thursday.\<close>

definition sql_weekofyear :: "time_zone \<Rightarrow> int \<Rightarrow> int" where
  "sql_weekofyear tz us =
     (let d = local_of_micros tz us div 86400;
          thu = d - (d + 3) mod 7 + 3;
          y = fst (civil_from_days thu)
      in (thu - days_from_civil y 1 1) div 7 + 1)"

definition digit :: "int \<Rightarrow> char" where
  "digit n = ''0123456789'' ! nat n"

definition pad2 :: "int \<Rightarrow> string" where
  "pad2 n = [digit (n div 10 mod 10), digit (n mod 10)]"

definition pad4 :: "int \<Rightarrow> string" where
  "pad4 n = pad2 (n div 100) @ pad2 (n mod 100)"

text \<open>
  \<^verbatim>\<open>FROM_UNIXTIME(secs)\<close> with its default pattern \<^verbatim>\<open>yyyy-MM-dd HH:mm:ss\<close>: the wall-clock
  time of an epoch second, as text. The pattern has no field below the second. (Years are
  those of four digits; the Time step has already refused any other, see \<open>get_datetime\<close>.)
\<close>

definition from_unixtime :: "time_zone \<Rightarrow> int \<Rightarrow> string" where
  "from_unixtime tz secs =
     (let t = local_seconds tz secs;
          (y, m, d) = civil_from_days (t div 86400);
          sod = t mod 86400
      in pad4 y @ ''-'' @ pad2 m @ ''-'' @ pad2 d @ '' '' @
         pad2 (sod div 3600) @ '':'' @ pad2 (sod mod 3600 div 60) @ '':'' @ pad2 (sod mod 60))"

text \<open>
  \<^verbatim>\<open>ts/1000\<close> in SQL is a DOUBLE quotient; \<^verbatim>\<open>FROM_UNIXTIME\<close> takes a BIGINT, and the cast
  of a DOUBLE to BIGINT drops the fraction (towards zero). The quotient is taken exactly.
\<close>

definition unix_seconds :: "int \<Rightarrow> int" where
  "unix_seconds ms = (if 0 \<le> ms then ms div 1000 else - ((- ms) div 1000))"

section \<open>Errors, storage and the session\<close>

datatype io_op = Read | Write

text \<open>
  \<open>StorageError\<close>: a path that cannot be read or written (Spark's "Path does not exist"
  and I/O failures). \<open>AnalysisException\<close>: a query names a column its view does not have.
  \<open>PythonException\<close>: a Python UDF raised.
\<close>

datatype error = StorageError io_op string | AnalysisException | PythonException

datatype save_mode = Overwrite | Append | Ignore | ErrorIfExists

text \<open>What a destination holds: the partition columns of its layout and the table.\<close>

record dataset =
  partition_cols :: "string list"
  data :: dataframe

type_synonym storage = "string \<Rightarrow> dataset option"

text \<open>
  The run's outcome keeps the storage either way: an exception does not undo the writes
  made before it.
\<close>

datatype result = Ok storage | Failed error storage

fun storage_of :: "result \<Rightarrow> storage" where
  "storage_of (Ok st) = st"
| "storage_of (Failed e st) = st"

fun error_of :: "result \<Rightarrow> error option" where
  "error_of (Ok st) = None"
| "error_of (Failed e st) = Some e"

text \<open>
  The \<^verbatim>\<open>spark\<close> argument: the session's time zone, what \<^verbatim>\<open>spark.read.json\<close> finds under
  a path pattern (\<open>None\<close>: nothing readable there), and which paths the session may read
  and write.
\<close>

record spark_session =
  time_zone :: time_zone
  json_songs :: "string \<Rightarrow> catalog_record list option"
  json_logs :: "string \<Rightarrow> activity_record list option"
  readable :: "string \<Rightarrow> bool"
  writable :: "string \<Rightarrow> bool"

text \<open>\<^verbatim>\<open>df.write\<close>, \<^verbatim>\<open>.mode(...)\<close>, \<^verbatim>\<open>.partitionBy(...)\<close> build a writer; \<^verbatim>\<open>.parquet(path)\<close> runs it.\<close>

record writer =
  w_df :: dataframe
  w_mode :: save_mode
  w_partition_by :: "string list"

definition df_write :: "dataframe \<Rightarrow> writer" where
  "df_write df = \<lparr>w_df = df, w_mode = ErrorIfExists, w_partition_by = []\<rparr>"

definition mode :: "save_mode \<Rightarrow> writer \<Rightarrow> writer" where
  "mode m w = w\<lparr>w_mode := m\<rparr>"

definition partitionBy :: "string list \<Rightarrow> writer \<Rightarrow> writer" where
  "partitionBy cols w = w\<lparr>w_partition_by := cols\<rparr>"

fun append_df :: "dataframe \<Rightarrow> dataframe \<Rightarrow> dataframe option" where
  "append_df (Songs a) (Songs b) = Some (Songs (a @ b))"
| "append_df (Artists a) (Artists b) = Some (Artists (a @ b))"
| "append_df (Users a) (Users b) = Some (Users (a @ b))"
| "append_df (Time a) (Time b) = Some (Time (a @ b))"
| "append_df (Songplays a) (Songplays b) = Some (Songplays (a @ b))"
| "append_df _ _ = None"

definition stored :: "writer \<Rightarrow> dataset" where
  "stored w = \<lparr>partition_cols = w_partition_by w, data = w_df w\<rparr>"

text \<open>A write is one step: the destination holds the new table, or the write failed.\<close>

definition parquet :: "spark_session \<Rightarrow> writer \<Rightarrow> string \<Rightarrow> storage \<Rightarrow> result" where
  "parquet spark w path st =
     (if \<not> writable spark path then Failed (StorageError Write path) st
      else case w_mode w of
        Overwrite \<Rightarrow> Ok (st(path \<mapsto> stored w))
      | ErrorIfExists \<Rightarrow>
          (case st path of
             None \<Rightarrow> Ok (st(path \<mapsto> stored w))
           | Some old \<Rightarrow> Failed (StorageError Write path) st)
      | Ignore \<Rightarrow>
          (case st path of
             None \<Rightarrow> Ok (st(path \<mapsto> stored w))
           | Some old \<Rightarrow> Ok st)
      | Append \<Rightarrow>
          (case st path of
             None \<Rightarrow> Ok (st(path \<mapsto> stored w))
           | Some old \<Rightarrow>
               (case append_df (data old) (w_df w) of
                  None \<Rightarrow> Failed AnalysisException st
                | Some d \<Rightarrow> Ok (st(path \<mapsto> old\<lparr>data := d\<rparr>)))))"

text \<open>\<^verbatim>\<open>spark.read.parquet(path)\<close> raises at once when the path is absent or unreadable.\<close>

definition read_parquet :: "spark_session \<Rightarrow> string \<Rightarrow> storage \<Rightarrow> error + dataframe" where
  "read_parquet spark path st =
     (if \<not> readable spark path then Inl (StorageError Read path)
      else case st path of
        None \<Rightarrow> Inl (StorageError Read path)
      | Some ds \<Rightarrow> Inr (data ds))"

section \<open>\<^verbatim>\<open>process_song_data\<close>\<close>

text \<open>
  \<^verbatim>\<open>SELECT DISTINCT song_id, title, artist_id, year, duration FROM songs
  WHERE song_id IS NOT NULL\<close>: filter, project, then drop repeated rows.
\<close>

definition songs_row_of :: "catalog_record \<Rightarrow> songs_row" where
  "songs_row_of r =
     \<lparr>s_song_id = song_id r, s_title = title r, s_artist_id = artist_id r,
      s_year = year r, s_duration = duration r\<rparr>"

definition songs_table :: "catalog_record list \<Rightarrow> songs_row list" where
  "songs_table df = remdups (map songs_row_of (filter (\<lambda>r. song_id r \<noteq> None) df))"

text \<open>
  \<^verbatim>\<open>SELECT DISTINCT artist_id, artist_name as name, artist_location as location,
  artist_latitude as lattitude, artist_longitude as longitude FROM songs
  WHERE artist_id IS NOT NULL\<close>.
\<close>

definition artists_row_of :: "catalog_record \<Rightarrow> artists_row" where
  "artists_row_of r =
     \<lparr>a_artist_id = artist_id r, a_name = artist_name r, a_location = artist_location r,
      a_lattitude = artist_latitude r, a_longitude = artist_longitude r\<rparr>"

definition artists_table :: "catalog_record list \<Rightarrow> artists_row list" where
  "artists_table df = remdups (map artists_row_of (filter (\<lambda>r. artist_id r \<noteq> None) df))"

definition process_song_data :: "spark_session \<Rightarrow> string \<Rightarrow> string \<Rightarrow> storage \<Rightarrow> result" where
  "process_song_data spark input_data output_data st =
     (let song_data = input_data @ ''song_data/*/*/*/*.json'' in
      case json_songs spark song_data of
        None \<Rightarrow> Failed (StorageError Read song_data) st
      | Some df \<Rightarrow>
          (case parquet spark
                  (partitionBy [''year'', ''artist_id''] (mode Overwrite (df_write (Songs (songs_table df)))))
                  (output_data @ ''songs/'') st of
             Failed e st1 \<Rightarrow> Failed e st1
           | Ok st1 \<Rightarrow>
               parquet spark (mode Overwrite (df_write (Artists (artists_table df))))
                 (output_data @ ''artists/'') st1))"

section \<open>\<^verbatim>\<open>process_log_data\<close>\<close>

text \<open>
  \<^verbatim>\<open>df.filter(df.page=="NextSong").createOrReplaceTempView("logs")\<close>: the view \<^verbatim>\<open>logs\<close> is the
  filtered frame. The name \<^verbatim>\<open>df\<close> is not rebound: it still holds every record.
\<close>

definition logs_view :: "activity_record list \<Rightarrow> activity_record list" where
  "logs_view df = filter (\<lambda>r. page r = Some ''NextSong'') df"

text \<open>
  \<^verbatim>\<open>SELECT DISTINCT userId as user_id, firstName as first_name, lastName as last_name,
  gender, level FROM logs WHERE userId IS NOT NULL\<close>.
\<close>

definition users_row_of :: "activity_record \<Rightarrow> users_row" where
  "users_row_of r =
     \<lparr>u_user_id = userId r, u_first_name = firstName r, u_last_name = lastName r,
      u_gender = gender r, u_level = level r\<rparr>"

definition users_table :: "activity_record list \<Rightarrow> users_row list" where
  "users_table logs = remdups (map users_row_of (filter (\<lambda>r. userId r \<noteq> None) logs))"

text \<open>
  \<^verbatim>\<open>get_datetime = udf(lambda x: datetime.fromtimestamp(int(x) / 1000.0), TimestampType())\<close>.
  \<^verbatim>\<open>int(None)\<close> raises; \<^verbatim>\<open>fromtimestamp\<close> raises outside the years 1 to 9999 of the
  local calendar (the worker's zone is the session's). Otherwise the value is the instant
  of \<open>x\<close> milliseconds, stored as microseconds. The float quotient is taken exactly, which
  it is, once rounded to the microsecond, for the timestamps of this and the last century.
\<close>

definition get_datetime :: "time_zone \<Rightarrow> int option \<Rightarrow> error + int option" where
  "get_datetime tz x =
     (case x of
        None \<Rightarrow> Inl PythonException
      | Some ms \<Rightarrow>
          (let us = ms * 1000; y = sql_year tz us
           in if 1 \<le> y \<and> y \<le> 9999 then Inr (Some us) else Inl PythonException))"

text \<open>A column computed row by row: the first failure is the job's.\<close>

fun collect :: "('e + 'a) list \<Rightarrow> 'e + 'a list" where
  "collect [] = Inr []"
| "collect (x # xs) =
     (case x of
        Inl e \<Rightarrow> Inl e
      | Inr v \<Rightarrow> (case collect xs of Inl e \<Rightarrow> Inl e | Inr vs \<Rightarrow> Inr (v # vs)))"

definition time_row_of :: "time_zone \<Rightarrow> int option \<Rightarrow> time_row" where
  "time_row_of tz datetime =
     \<lparr>t_start_time = datetime,
      t_hour = map_option (sql_hour tz) datetime,
      t_day = map_option (sql_day tz) datetime,
      t_week = map_option (sql_weekofyear tz) datetime,
      t_month = map_option (sql_month tz) datetime,
      t_year = map_option (sql_year tz) datetime,
      t_weekday = map_option (sql_dayofweek tz) datetime\<rparr>"

text \<open>
  \<^verbatim>\<open>df = df.withColumn('datetime', get_datetime(df.ts))\<close>,
  \<^verbatim>\<open>df.createOrReplaceTempView("time")\<close>, then the SELECT DISTINCT over the view \<^verbatim>\<open>time\<close>
  with \<^verbatim>\<open>WHERE datetime IS NOT NULL\<close>. The argument is \<^verbatim>\<open>df\<close>, every record read. (The
  column \<^verbatim>\<open>timestamp\<close> added just before is selected by no query.)
\<close>

definition time_table :: "time_zone \<Rightarrow> activity_record list \<Rightarrow> error + time_row list" where
  "time_table tz df =
     (case collect (map (\<lambda>r. get_datetime tz (ts r)) df) of
        Inl e \<Rightarrow> Inl e
      | Inr datetimes \<Rightarrow>
          Inr (remdups (map (time_row_of tz) (filter (\<lambda>d. d \<noteq> None) datetimes))))"

text \<open>SQL's \<open>=\<close> in a join condition: true only of two equal values, never of a NULL.\<close>

definition sql_eq :: "'a option \<Rightarrow> 'a option \<Rightarrow> bool" where
  "sql_eq a b = (case a of None \<Rightarrow> False | Some x \<Rightarrow> b = Some x)"

definition matches :: "songs_row list \<Rightarrow> activity_record \<Rightarrow> songs_row list" where
  "matches songs l = filter (\<lambda>s. sql_eq (s_title s) (song l)) songs"

text \<open>
  \<^verbatim>\<open>FROM logs l LEFT JOIN songs s ON (s.title = l.song)\<close>: each left row with each of its
  matches, or once with no right row when it has none.
\<close>

definition left_join ::
    "activity_record list \<Rightarrow> songs_row list \<Rightarrow> (activity_record \<times> songs_row option) list" where
  "left_join logs songs =
     concat (map (\<lambda>l. case matches songs l of
                         [] \<Rightarrow> [(l, None)]
                       | s # ss \<Rightarrow> map (\<lambda>s'. (l, Some s')) (s # ss)) logs)"

text \<open>The SELECT list of the songplays query but for \<^verbatim>\<open>songplay_id\<close>.\<close>

definition songplay :: "time_zone \<Rightarrow> int \<Rightarrow> activity_record \<times> songs_row option \<Rightarrow> songplays_row" where
  "songplay tz i ls =
     (case ls of (l, s) \<Rightarrow>
        \<lparr>songplay_id = i,
         sp_start_time = map_option (\<lambda>ms. from_unixtime tz (unix_seconds ms)) (ts l),
         sp_user_id = userId l,
         sp_level = level l,
         sp_song_id = Option.bind s s_song_id,
         sp_artist_id = Option.bind s s_artist_id,
         sp_session_id = sessionId l,
         sp_location = location l,
         sp_user_agent = userAgent l\<rparr>)"

text \<open>
  \<^verbatim>\<open>monotonically_increasing_id()\<close> numbers the rows of a partition upwards from the
  partition's base; the joined rows are taken as one partition, with base 0.
\<close>

definition monotonically_increasing_id :: "'a list \<Rightarrow> (int \<times> 'a) list" where
  "monotonically_increasing_id rows = zip (map int [0..<length rows]) rows"

definition songplays_table ::
    "time_zone \<Rightarrow> activity_record list \<Rightarrow> songs_row list \<Rightarrow> songplays_row list" where
  "songplays_table tz logs songs =
     map (\<lambda>(i, ls). songplay tz i ls) (monotonically_increasing_id (left_join logs songs))"

text \<open>
  The query resolves \<^verbatim>\<open>s.title\<close>, \<^verbatim>\<open>s.song_id\<close> and \<^verbatim>\<open>s.artist_id\<close> against what was read
  back from \<^verbatim>\<open>songs/\<close>.
\<close>

definition songplays_query ::
    "time_zone \<Rightarrow> activity_record list \<Rightarrow> dataframe \<Rightarrow> error + songplays_row list" where
  "songplays_query tz logs song_df =
     (case song_df of
        Songs songs \<Rightarrow> Inr (songplays_table tz logs songs)
      | _ \<Rightarrow> Inl AnalysisException)"

definition process_log_data :: "spark_session \<Rightarrow> string \<Rightarrow> string \<Rightarrow> storage \<Rightarrow> result" where
  "process_log_data spark input_data output_data st =
     (let log_data = input_data @ ''log_data/*/*/*.json'' in
      case json_logs spark log_data of
        None \<Rightarrow> Failed (StorageError Read log_data) st
      | Some df \<Rightarrow>
          (case parquet spark (mode Overwrite (df_write (Users (users_table (logs_view df)))))
                  (output_data @ ''users/'') st of
             Failed e st1 \<Rightarrow> Failed e st1
           | Ok st1 \<Rightarrow>
               (case time_table (time_zone spark) df of
                  Inl e \<Rightarrow> Failed e st1
                | Inr tt \<Rightarrow>
                    (case parquet spark
                            (partitionBy [''year'', ''month''] (mode Overwrite (df_write (Time tt))))
                            (output_data @ ''time/'') st1 of
                       Failed e st2 \<Rightarrow> Failed e st2
                     | Ok st2 \<Rightarrow>
                         (case read_parquet spark (output_data @ ''songs/'') st2 of
                            Inl e \<Rightarrow> Failed e st2
                          | Inr song_df \<Rightarrow>
                              (case songplays_query (time_zone spark) (logs_view df) song_df of
                                 Inl e \<Rightarrow> Failed e st2
                               | Inr sp \<Rightarrow>
                                   parquet spark (mode Overwrite (df_write (Songplays sp)))
                                     (output_data @ ''songplays/'') st2))))))"

section \<open>\<^verbatim>\<open>main\<close>\<close>

definition main :: "spark_session \<Rightarrow> storage \<Rightarrow> result" where
  "main spark st =
     (let input_data = ''s3a://udacity-dend/'';
          output_data = ''s3a://udacity-dend/output''
      in case process_song_data spark input_data output_data st of
           Failed e st1 \<Rightarrow> Failed e st1
         | Ok st1 \<Rightarrow> process_log_data spark input_data output_data st1)"

text \<open>
  The errors of the fact step of \<^verbatim>\<open>process_log_data\<close> (from the read of \<^verbatim>\<open>songs/\<close> on):
  the read fails, the query does not resolve, or the write of \<^verbatim>\<open>songplays/\<close> fails. Every
  other error of the function names another path or comes from the UDF.
\<close>

definition fact_step_error :: "string \<Rightarrow> error \<Rightarrow> bool" where
  "fact_step_error output_data e =
     (e = StorageError Read (output_data @ ''songs/'')
      \<or> e = AnalysisException
      \<or> e = StorageError Write (output_data @ ''songplays/''))"

section \<open>Example inputs\<close>

definition utc :: time_zone where
  "utc = (\<lambda>_. 0)"

text \<open>One hour east of UTC.\<close>

definition cet :: time_zone where
  "cet = (\<lambda>_. 3600)"

definition play :: activity_record where
  "play = \<lparr>page = Some ''NextSong'', ts = Some 1541105830796, userId = Some ''8'',
           firstName = Some ''Kaylee'', lastName = Some ''Summers'', gender = Some ''F'',
           level = Some ''free'', sessionId = Some 139,
           location = Some ''Phoenix-Mesa-Scottsdale, AZ'', userAgent = Some ''Mozilla/5.0'',
           song = Some ''You Gotta Be''\<rparr>"

definition visit :: activity_record where
  "visit = \<lparr>page = Some ''Home'', ts = Some 1541106106796, userId = Some ''8'',
            firstName = Some ''Kaylee'', lastName = Some ''Summers'', gender = Some ''F'',
            level = Some ''free'', sessionId = Some 139,
            location = Some ''Phoenix-Mesa-Scottsdale, AZ'', userAgent = Some ''Mozilla/5.0'',
            song = None\<rparr>"

definition track :: "string \<Rightarrow> string \<Rightarrow> string \<Rightarrow> catalog_record" where
  "track sid t aid =
     \<lparr>song_id = Some sid, title = Some t, artist_id = Some aid, artist_name = Some ''Desree'',
      artist_location = None, artist_latitude = None, artist_longitude = None,
      year = Some 1994, duration = Some 246\<rparr>"

text \<open>A session in UTC that finds the given records under the paths of \<open>main\<close>.\<close>

definition session :: "activity_record list \<Rightarrow> catalog_record list \<Rightarrow> spark_session" where
  "session logs cat =
     \<lparr>time_zone = utc,
      json_songs = [''s3a://udacity-dend/song_data/*/*/*/*.json'' \<mapsto> cat],
      json_logs = [''s3a://udacity-dend/log_data/*/*/*.json'' \<mapsto> logs],
      readable = (\<lambda>_. True),
      writable = (\<lambda>_. True)\<rparr>"

section \<open>Lemmas about the queries\<close>


lemma collect_Inl: "collect xs = Inl e \<Longrightarrow> Inl e \<in> set xs"
  by (induction xs) (auto split: sum.splits)


lemma get_datetime_Inl: "get_datetime tz x = Inl e \<Longrightarrow> e = PythonException"
  by (auto simp: get_datetime_def Let_def split: option.splits if_splits)


lemma time_table_Inl: "time_table tz df = Inl e \<Longrightarrow> e = PythonException"
proof -
  assume "time_table tz df = Inl e"
  then have "collect (map (\<lambda>r. get_datetime tz (ts r)) df) = Inl e"
    by (simp add: time_table_def split: sum.splits)
  from collect_Inl[OF this] have "Inl e \<in> (\<lambda>r. get_datetime tz (ts r)) ` set df"
    by simp
  then obtain r :: activity_record where "Inl e = get_datetime tz (ts r)"
    by blast
  then show "e = PythonException" by (simp add: get_datetime_Inl)
qed

lemma t_start_time_row [simp]: "t_start_time (time_row_of tz d) = d"
  by (simp add: time_row_of_def)


lemma length_left_join:
  "length (left_join logs songs) = (\<Sum>l\<leftarrow>logs. max 1 (length (matches songs l)))"
  by (induction logs) (auto simp: left_join_def split: list.splits)

lemma length_songplays_table:
  "length (songplays_table tz logs songs) = length (left_join logs songs)"
  by (simp add: songplays_table_def monotonically_increasing_id_def)

lemma sum_list_max1_ge: "length logs \<le> (\<Sum>l\<leftarrow>logs. max (1::nat) (f l))"
  by (induction logs) auto

lemma sum_list_max1_eq:
  "(\<forall>l\<in>set logs. f l \<le> (1::nat)) \<Longrightarrow> (\<Sum>l\<leftarrow>logs. max 1 (f l)) = length logs"
  by (induction logs) (auto simp: max_def)




lemma map_songplay_zip:
  "length is = length xs \<Longrightarrow>
   map (\<lambda>e. e\<lparr>songplay_id := 0\<rparr>) (map (\<lambda>(i, ls). songplay tz i ls) (zip is xs))
     = map (songplay tz 0) xs"
  by (induction "is" xs rule: list_induct2) (simp_all add: songplay_def split: prod.splits)

lemma songplays_table_anon:
  "map (\<lambda>e. e\<lparr>songplay_id := 0\<rparr>) (songplays_table tz logs songs)
     = map (songplay tz 0) (left_join logs songs)"
  unfolding songplays_table_def monotonically_increasing_id_def
  by (rule map_songplay_zip) simp

lemma left_join_concat:
  "left_join logs songs = concat (map (\<lambda>l. left_join [l] songs) logs)"
  by (simp add: left_join_def)

lemma matches_title:
  "song l = Some t \<Longrightarrow> matches songs l = filter (\<lambda>s. s_title s = Some t) songs"
  by (auto simp: matches_def sql_eq_def intro!: filter_cong split: option.splits)

lemma matches_none:
  "(\<forall>s\<in>set songs. s_title s = None \<or> s_title s \<noteq> song l) \<Longrightarrow> matches songs l = []"
  by (auto simp: matches_def sql_eq_def filter_empty_conv split: option.splits)

lemma songplays_one_match:
  "matches songs l = [s] \<Longrightarrow> songplays_table tz [l] songs = [songplay tz 0 (l, Some s)]"
  by (simp add: songplays_table_def monotonically_increasing_id_def left_join_def)

lemma songplays_no_match:
  "matches songs l = [] \<Longrightarrow> songplays_table tz [l] songs = [songplay tz 0 (l, None)]"
  by (simp add: songplays_table_def monotonically_increasing_id_def left_join_def)

lemma from_unixtime_offset: "from_unixtime tz s = from_unixtime (\<lambda>_. tz s) s"
  by (simp add: from_unixtime_def local_seconds_def)

lemma from_unixtime_play_utc: "from_unixtime (\<lambda>_. 0) 1541105830 = ''2018-11-01 20:57:10''"
  by code_simp

lemma from_unixtime_play_cet: "from_unixtime (\<lambda>_. 3600) 1541105830 = ''2018-11-01 21:57:10''"
  by code_simp

lemma unix_seconds_play: "unix_seconds 1541105830796 = 1541105830"
  by (simp add: unix_seconds_def)

section \<open>Lemmas about storage\<close>

lemma stored_overwrite [simp]:
  "stored (mode Overwrite (df_write d)) = \<lparr>partition_cols = [], data = d\<rparr>"
  "stored (partitionBy cols (mode Overwrite (df_write d))) = \<lparr>partition_cols = cols, data = d\<rparr>"
  by (simp_all add: stored_def mode_def df_write_def partitionBy_def)

lemma w_mode_overwrite [simp]:
  "w_mode (mode Overwrite w) = Overwrite"
  "w_mode (partitionBy cols (mode Overwrite w)) = Overwrite"
  by (simp_all add: mode_def partitionBy_def)

lemma parquet_overwrite:
  "w_mode w = Overwrite \<Longrightarrow>
   parquet spark w path st =
     (if writable spark path then Ok (st(path \<mapsto> stored w)) else Failed (StorageError Write path) st)"
  by (simp add: parquet_def)

lemma read_parquet_Inl: "read_parquet spark p st = Inl e \<Longrightarrow> e = StorageError Read p"
  by (auto simp: read_parquet_def split: if_splits option.splits)

lemma read_parquet_frame:
  "p \<noteq> q \<Longrightarrow> read_parquet spark p (st(q \<mapsto> v)) = read_parquet spark p st"
  by (simp add: read_parquet_def)

lemma log_path_neq_songs: "i @ ''log_data/*/*/*.json'' \<noteq> out @ ''songs/''"
proof
  assume "i @ ''log_data/*/*/*.json'' = out @ ''songs/''"
  then have "last (i @ ''log_data/*/*/*.json'') = last (out @ ''songs/'')" by simp
  then show False by simp
qed

lemma fact_step_error_simps [simp]:
  "\<not> fact_step_error out (StorageError Read (i @ ''log_data/*/*/*.json''))"
  "\<not> fact_step_error out (StorageError Write (out @ ''users/''))"
  "\<not> fact_step_error out (StorageError Write (out @ ''time/''))"
  "\<not> fact_step_error out PythonException"
  by (simp_all add: fact_step_error_def log_path_neq_songs)

text \<open>A run of \<open>main\<close> that returns has read both inputs and replaced all five destinations.\<close>

lemma main_Ok:
  assumes "main spark st = Ok st'"
  shows "\<exists>cat df tt.
           json_songs spark ''s3a://udacity-dend/song_data/*/*/*/*.json'' = Some cat
         \<and> json_logs spark ''s3a://udacity-dend/log_data/*/*/*.json'' = Some df
         \<and> time_table (time_zone spark) df = Inr tt
         \<and> st' = st(''s3a://udacity-dend/outputsongs/'' \<mapsto>
                       \<lparr>partition_cols = [''year'', ''artist_id''], data = Songs (songs_table cat)\<rparr>,
                     ''s3a://udacity-dend/outputartists/'' \<mapsto>
                       \<lparr>partition_cols = [], data = Artists (artists_table cat)\<rparr>,
                     ''s3a://udacity-dend/outputusers/'' \<mapsto>
                       \<lparr>partition_cols = [], data = Users (users_table (logs_view df))\<rparr>,
                     ''s3a://udacity-dend/outputtime/'' \<mapsto>
                       \<lparr>partition_cols = [''year'', ''month''], data = Time tt\<rparr>,
                     ''s3a://udacity-dend/outputsongplays/'' \<mapsto>
                       \<lparr>partition_cols = [],
                        data = Songplays (songplays_table (time_zone spark) (logs_view df)
                                            (songs_table cat))\<rparr>)"
  using assms
  by (auto simp: main_def process_song_data_def process_log_data_def parquet_overwrite Let_def
                 read_parquet_def songplays_query_def
           split: option.splits sum.splits if_splits result.splits)

text \<open>Whatever the outcome, a path that changed holds a whole new table in its layout.\<close>

lemma main_any_outcome:
  "storage_of (main spark st) p = st p
   \<or> (p = ''s3a://udacity-dend/outputsongs/''
        \<and> (\<exists>t. storage_of (main spark st) p
               = Some \<lparr>partition_cols = [''year'', ''artist_id''], data = Songs t\<rparr>))
   \<or> (p = ''s3a://udacity-dend/outputartists/''
        \<and> (\<exists>t. storage_of (main spark st) p = Some \<lparr>partition_cols = [], data = Artists t\<rparr>))
   \<or> (p = ''s3a://udacity-dend/outputusers/''
        \<and> (\<exists>t. storage_of (main spark st) p = Some \<lparr>partition_cols = [], data = Users t\<rparr>))
   \<or> (p = ''s3a://udacity-dend/outputtime/''
        \<and> (\<exists>t. storage_of (main spark st) p
               = Some \<lparr>partition_cols = [''year'', ''month''], data = Time t\<rparr>))
   \<or> (p = ''s3a://udacity-dend/outputsongplays/''
        \<and> (\<exists>t. storage_of (main spark st) p = Some \<lparr>partition_cols = [], data = Songplays t\<rparr>))"
  by (auto simp: main_def process_song_data_def process_log_data_def parquet_overwrite Let_def
                 read_parquet_def songplays_query_def
           split: option.splits sum.splits if_splits result.splits dataframe.splits)

section \<open>The start time of an event and of its Time row\<close>




section \<open>Which records reach which table\<close>


section \<open>The number of Event rows\<close>

text \<open>
  Claim C3, as amended. The claim says that the Event table has exactly as many rows as
  there are \<^verbatim>\<open>NextSong\<close> records, however many Song rows share a title. The join is a plain
  LEFT JOIN, so a record whose title is that of \<open>k > 1\<close> Song rows gives \<open>k\<close> Event rows.
  What holds: the Event table has one row per \<^verbatim>\<open>NextSong\<close> record and match, and one for
  a record without a match; so never fewer rows than such records, and exactly as many
  when no played title is the title of more than one Song row.
\<close>

theorem songplays_row_count:
  "length (songplays_table tz (logs_view df) songs)
     = (\<Sum>l\<leftarrow>logs_view df. max 1 (length (matches songs l)))
   \<and> length (logs_view df) \<le> length (songplays_table tz (logs_view df) songs)
   \<and> ((\<forall>l\<in>set (logs_view df). length (matches songs l) \<le> 1)
        \<longrightarrow> length (songplays_table tz (logs_view df) songs) = length (logs_view df))"
proof -
  let ?n = "\<lambda>l. length (matches songs l)"
  have len: "length (songplays_table tz (logs_view df) songs)
      = (\<Sum>l\<leftarrow>logs_view df. max 1 (?n l))"
    by (simp only: length_songplays_table length_left_join)
  moreover have "length (logs_view df) \<le> (\<Sum>l\<leftarrow>logs_view df. max 1 (?n l))"
    by (rule sum_list_max1_ge)
  moreover have "(\<forall>l\<in>set (logs_view df). ?n l \<le> 1)
      \<longrightarrow> (\<Sum>l\<leftarrow>logs_view df. max 1 (?n l)) = length (logs_view df)"
    using sum_list_max1_eq[of "logs_view df" ?n] by blast
  ultimately show ?thesis by (simp only:)
qed

text \<open>The theorem at two records, one of them a play, and one Song row with its title.\<close>

theorem songplays_row_count_witness:
  "length (matches (songs_table [track ''S1'' ''You Gotta Be'' ''A1'']) play) = 1
   \<and> length (logs_view [play, visit]) = 1
   \<and> length (songplays_table utc (logs_view [play, visit])
               (songs_table [track ''S1'' ''You Gotta Be'' ''A1''])) = 1"
proof -
  let ?songs = "songs_table [track ''S1'' ''You Gotta Be'' ''A1'']"
  have m: "length (matches ?songs play) = 1"
    by code_simp
  have v: "logs_view [play, visit] = [play]"
    by code_simp
  have h: "\<forall>l\<in>set (logs_view [play, visit]). length (matches ?songs l) \<le> 1"
    using m by (simp add: v)
  from songplays_row_count[of utc "[play, visit]" ?songs] h
  have "length (songplays_table utc (logs_view [play, visit]) ?songs)
          = length (logs_view [play, visit])"
    by blast
  with m v show ?thesis by simp
qed

text \<open>Two Song rows titled alike: one \<^verbatim>\<open>NextSong\<close> record, two Event rows.\<close>

theorem one_play_two_songplays:
  "length (logs_view [play]) = 1
   \<and> length (songplays_table utc (logs_view [play])
               (songs_table [track ''S1'' ''You Gotta Be'' ''A1'',
                             track ''S2'' ''You Gotta Be'' ''A2''])) = 2
   \<and> map sp_song_id (songplays_table utc (logs_view [play])
               (songs_table [track ''S1'' ''You Gotta Be'' ''A1'',
                             track ''S2'' ''You Gotta Be'' ''A2'']))
       = [Some ''S1'', Some ''S2'']"
  by code_simp

section \<open>Keys of the dimension tables\<close>




section \<open>The join\<close>

text \<open>
  Claim C5. The Event table is the left join of the \<^verbatim>\<open>NextSong\<close> records with the Song
  table on the title: leaving \<^verbatim>\<open>songplay_id\<close> aside, it is the rows of each such record,
  one record after the other. A record whose title is that of exactly one Song row gives
  one Event row, with that row's \<open>song_id\<close> and \<open>artist_id\<close>; a record whose title is that
  of no Song row gives one Event row, with both NULL.
\<close>

theorem songplays_left_join:
  "map (\<lambda>e. e\<lparr>songplay_id := 0\<rparr>) (songplays_table tz (logs_view df) songs)
     = concat (map (\<lambda>l. map (\<lambda>e. e\<lparr>songplay_id := 0\<rparr>) (songplays_table tz [l] songs))
                   (logs_view df))
   \<and> (song l = Some t \<and> filter (\<lambda>s. s_title s = Some t) songs = [s]
        \<longrightarrow> songplays_table tz [l] songs = [songplay tz 0 (l, Some s)]
          \<and> sp_song_id (songplay tz 0 (l, Some s)) = s_song_id s
          \<and> sp_artist_id (songplay tz 0 (l, Some s)) = s_artist_id s)
   \<and> ((\<forall>s\<in>set songs. s_title s = None \<or> s_title s \<noteq> song l)
        \<longrightarrow> songplays_table tz [l] songs = [songplay tz 0 (l, None)]
          \<and> sp_song_id (songplay tz 0 (l, None)) = None
          \<and> sp_artist_id (songplay tz 0 (l, None)) = None)"
proof -
  have "map (\<lambda>e. e\<lparr>songplay_id := 0\<rparr>) (songplays_table tz (logs_view df) songs)
      = map (songplay tz 0) (concat (map (\<lambda>l. left_join [l] songs) (logs_view df)))"
    by (simp only: songplays_table_anon left_join_concat[of "logs_view df"])
  also have "\<dots> = concat (map (\<lambda>l. map (songplay tz 0) (left_join [l] songs)) (logs_view df))"
    by (simp add: map_concat comp_def)
  also have "\<dots> = concat (map (\<lambda>l. map (\<lambda>e. e\<lparr>songplay_id := 0\<rparr>) (songplays_table tz [l] songs))
                            (logs_view df))"
    by (simp only: songplays_table_anon)
  finally have a: "map (\<lambda>e. e\<lparr>songplay_id := 0\<rparr>) (songplays_table tz (logs_view df) songs)
     = concat (map (\<lambda>l. map (\<lambda>e. e\<lparr>songplay_id := 0\<rparr>) (songplays_table tz [l] songs))
                   (logs_view df))" .
  have b: "song l = Some t \<and> filter (\<lambda>s. s_title s = Some t) songs = [s]
        \<longrightarrow> songplays_table tz [l] songs = [songplay tz 0 (l, Some s)]
          \<and> sp_song_id (songplay tz 0 (l, Some s)) = s_song_id s
          \<and> sp_artist_id (songplay tz 0 (l, Some s)) = s_artist_id s"
    using songplays_one_match[of songs l s tz] matches_title[of l t songs]
    by (simp add: songplay_def)
  have c: "(\<forall>s\<in>set songs. s_title s = None \<or> s_title s \<noteq> song l)
        \<longrightarrow> songplays_table tz [l] songs = [songplay tz 0 (l, None)]
          \<and> sp_song_id (songplay tz 0 (l, None)) = None
          \<and> sp_artist_id (songplay tz 0 (l, None)) = None"
    using songplays_no_match[of songs l tz] matches_none[of songs l]
    by (simp add: songplay_def)
  from a b c show ?thesis by (simp only:)
qed

text \<open>
  The theorem at the Song table of \<^verbatim>\<open>Foo\<close> (S1, A1) and \<^verbatim>\<open>You Gotta Be\<close> (S2, A2): the play
  of \<^verbatim>\<open>You Gotta Be\<close> carries S2 and A2, the play of \<^verbatim>\<open>Bar\<close> carries NULLs.
\<close>

theorem songplays_left_join_witness:
  "filter (\<lambda>s. s_title s = Some ''You Gotta Be'')
      (songs_table [track ''S1'' ''Foo'' ''A1'', track ''S2'' ''You Gotta Be'' ''A2''])
     = [songs_row_of (track ''S2'' ''You Gotta Be'' ''A2'')]
   \<and> map (\<lambda>e. (sp_song_id e, sp_artist_id e))
       (songplays_table utc [play]
          (songs_table [track ''S1'' ''Foo'' ''A1'', track ''S2'' ''You Gotta Be'' ''A2'']))
       = [(Some ''S2'', Some ''A2'')]
   \<and> map (\<lambda>e. (sp_song_id e, sp_artist_id e))
       (songplays_table utc [play\<lparr>song := Some ''Bar''\<rparr>]
          (songs_table [track ''S1'' ''Foo'' ''A1'', track ''S2'' ''You Gotta Be'' ''A2'']))
       = [(None, None)]"
proof -
  let ?songs = "songs_table [track ''S1'' ''Foo'' ''A1'', track ''S2'' ''You Gotta Be'' ''A2'']"
  let ?s = "songs_row_of (track ''S2'' ''You Gotta Be'' ''A2'')"
  let ?bar = "play\<lparr>song := Some ''Bar''\<rparr>"
  have h1: "song play = Some ''You Gotta Be''"
    by (simp add: play_def)
  have h2: "filter (\<lambda>s. s_title s = Some ''You Gotta Be'') ?songs = [?s]"
    by code_simp
  have h3: "\<forall>s\<in>set ?songs. s_title s = None \<or> s_title s \<noteq> song ?bar"
    by code_simp
  have ids: "s_song_id ?s = Some ''S2''" "s_artist_id ?s = Some ''A2''"
    by (simp_all add: songs_row_of_def track_def)
  from songplays_left_join[of utc "[]" ?songs play "''You Gotta Be''" ?s] h1 h2
  have one: "songplays_table utc [play] ?songs = [songplay utc 0 (play, Some ?s)]
      \<and> sp_song_id (songplay utc 0 (play, Some ?s)) = s_song_id ?s
      \<and> sp_artist_id (songplay utc 0 (play, Some ?s)) = s_artist_id ?s"
    by blast
  from songplays_left_join[of utc "[]" ?songs ?bar] h3
  have none: "songplays_table utc [?bar] ?songs = [songplay utc 0 (?bar, None)]
      \<and> sp_song_id (songplay utc 0 (?bar, None)) = None
      \<and> sp_artist_id (songplay utc 0 (?bar, None)) = None"
    by blast
  from one none h2 ids show ?thesis by simp
qed

section \<open>The scenario of the unmatched play\<close>

text \<open>
  Claim C6, as amended. The claim says that the record with \<open>ts = 1541105830796\<close>, user
  \<^verbatim>\<open>8\<close>, page \<^verbatim>\<open>NextSong\<close> and song \<^verbatim>\<open>You Gotta Be\<close>, with no Song row of that title, gives
  one Event row with NULL \<open>song_id\<close> and \<open>artist_id\<close> whose \<open>start_time\<close> is the instant
  2018-11-01T21:57:10.796. What holds: there is exactly that one row, with both ids NULL and
  user \<^verbatim>\<open>8\<close>, and its \<open>start_time\<close> is the text of the whole second 1541105830 in the
  session's time zone: \<^verbatim>\<open>2018-11-01 20:57:10\<close> in UTC, \<^verbatim>\<open>2018-11-01 21:57:10\<close> one hour
  east of it. The 796 milliseconds are not in it.
\<close>

theorem you_gotta_be_unmatched:
  assumes "page l = Some ''NextSong''" and "ts l = Some 1541105830796"
    and "userId l = Some ''8''" and "song l = Some ''You Gotta Be''"
    and "\<forall>s\<in>set songs. s_title s \<noteq> Some ''You Gotta Be''"
  shows "songplays_table tz (logs_view [l]) songs = [songplay tz 0 (l, None)]
       \<and> sp_song_id (songplay tz 0 (l, None)) = None
       \<and> sp_artist_id (songplay tz 0 (l, None)) = None
       \<and> sp_user_id (songplay tz 0 (l, None)) = Some ''8''
       \<and> sp_start_time (songplay tz 0 (l, None)) = Some (from_unixtime tz 1541105830)
       \<and> (tz 1541105830 = 0 \<longrightarrow> from_unixtime tz 1541105830 = ''2018-11-01 20:57:10'')
       \<and> (tz 1541105830 = 3600 \<longrightarrow> from_unixtime tz 1541105830 = ''2018-11-01 21:57:10'')"
proof -
  have v: "logs_view [l] = [l]"
    using assms(1) by (simp add: logs_view_def)
  have "matches songs l = []"
    using assms(4,5) by (intro matches_none) auto
  then have t: "songplays_table tz [l] songs = [songplay tz 0 (l, None)]"
    by (rule songplays_no_match)
  have f: "sp_song_id (songplay tz 0 (l, None)) = None"
     "sp_artist_id (songplay tz 0 (l, None)) = None"
     "sp_user_id (songplay tz 0 (l, None)) = Some ''8''"
     "sp_start_time (songplay tz 0 (l, None)) = Some (from_unixtime tz 1541105830)"
    using assms(2,3) by (simp_all add: songplay_def unix_seconds_play)
  have z: "tz 1541105830 = 0 \<longrightarrow> from_unixtime tz 1541105830 = ''2018-11-01 20:57:10''"
    using from_unixtime_offset[of tz 1541105830] by (simp add: from_unixtime_play_utc)
  have c: "tz 1541105830 = 3600 \<longrightarrow> from_unixtime tz 1541105830 = ''2018-11-01 21:57:10''"
    using from_unixtime_offset[of tz 1541105830] by (simp add: from_unixtime_play_cet)
  from t f z c show ?thesis by (simp only: v)
qed

text \<open>The theorem at the record \<open>play\<close>, a Song table of another title, one hour east of UTC.\<close>

theorem you_gotta_be_unmatched_witness:
  "songplays_table cet (logs_view [play]) (songs_table [track ''S1'' ''Foo'' ''A1''])
     = [songplay cet 0 (play, None)]
   \<and> sp_song_id (songplay cet 0 (play, None)) = None
   \<and> sp_artist_id (songplay cet 0 (play, None)) = None
   \<and> sp_start_time (songplay cet 0 (play, None)) = Some ''2018-11-01 21:57:10''"
proof -
  have h: "page play = Some ''NextSong''" "ts play = Some 1541105830796"
      "userId play = Some ''8''" "song play = Some ''You Gotta Be''"
    by (simp_all add: play_def)
  have n: "\<forall>s\<in>set (songs_table [track ''S1'' ''Foo'' ''A1'']). s_title s \<noteq> Some ''You Gotta Be''"
    by code_simp
  have z: "cet 1541105830 = 3600"
    by (simp add: cet_def)
  from you_gotta_be_unmatched[OF h n, of cet] z show ?thesis by simp
qed

text \<open>
  One hour east of UTC, where the wall clock reads 21:57:10, the \<open>start_time\<close> of the
  scenario's row is the text of 21:57:10 sharp: the same text as for the record of 796
  milliseconds earlier. In UTC the text reads 20:57:10.
\<close>

theorem you_gotta_be_start_time_is_whole_second:
  "map sp_start_time (songplays_table cet (logs_view [play]) [])
     = [Some ''2018-11-01 21:57:10'']
   \<and> map sp_start_time (songplays_table cet (logs_view [play\<lparr>ts := Some 1541105830000\<rparr>]) [])
       = [Some ''2018-11-01 21:57:10'']
   \<and> map sp_start_time (songplays_table utc (logs_view [play]) [])
       = [Some ''2018-11-01 20:57:10'']"
  by code_simp

section \<open>Rows of the User table\<close>

text \<open>
  Claim C7. The User query keeps the rows of its input with a user id and returns each
  distinct row (user_id, first_name, last_name, gender, level) once: the comparison is on
  the whole row. So when two records of its input have one user id and two levels, both
  rows are in the User table, and they are two rows with that user id. (The input of the
  query is the view \<^verbatim>\<open>logs\<close>.)
\<close>

theorem users_table_full_row:
  assumes "r1 \<in> set logs" and "r2 \<in> set logs"
    and "userId r1 = Some u" and "userId r2 = Some u"
    and "level r1 \<noteq> level r2"
  shows "users_row_of r1 \<in> set (users_table logs)
       \<and> users_row_of r2 \<in> set (users_table logs)
       \<and> users_row_of r1 \<noteq> users_row_of r2
       \<and> u_user_id (users_row_of r1) = Some u
       \<and> u_user_id (users_row_of r2) = Some u
       \<and> distinct (users_table logs)
       \<and> set (users_table logs) = users_row_of ` {r \<in> set logs. userId r \<noteq> None}"
proof -
  let ?kept = "{r \<in> set logs. userId r \<noteq> None}"
  have tbl: "set (users_table logs) = users_row_of ` ?kept"
    by (auto simp: users_table_def)
  have "r1 \<in> ?kept" and "r2 \<in> ?kept"
    using assms by simp_all
  then have "users_row_of r1 \<in> users_row_of ` ?kept" and "users_row_of r2 \<in> users_row_of ` ?kept"
    by blast+
  moreover have "users_row_of r1 \<noteq> users_row_of r2"
    using assms(5) by (simp add: users_row_of_def)
  moreover have "u_user_id (users_row_of r1) = Some u" and "u_user_id (users_row_of r2) = Some u"
    using assms(3,4) by (simp_all add: users_row_of_def)
  moreover have "distinct (users_table logs)"
    by (simp add: users_table_def)
  ultimately show ?thesis by (simp only: tbl) blast
qed

text \<open>
  The theorem at the view \<^verbatim>\<open>logs\<close> of a free play, a visit and a paid play of user \<^verbatim>\<open>8\<close>:
  the table has the two rows of the plays.
\<close>

theorem users_table_full_row_witness:
  "logs_view [play, visit, play\<lparr>level := Some ''paid''\<rparr>] = [play, play\<lparr>level := Some ''paid''\<rparr>]
   \<and> level play \<noteq> level (play\<lparr>level := Some ''paid''\<rparr>)
   \<and> users_row_of play \<in> set (users_table (logs_view [play, visit, play\<lparr>level := Some ''paid''\<rparr>]))
   \<and> users_row_of (play\<lparr>level := Some ''paid''\<rparr>)
       \<in> set (users_table (logs_view [play, visit, play\<lparr>level := Some ''paid''\<rparr>]))
   \<and> users_row_of play \<noteq> users_row_of (play\<lparr>level := Some ''paid''\<rparr>)
   \<and> u_user_id (users_row_of play) = Some ''8''
   \<and> u_user_id (users_row_of (play\<lparr>level := Some ''paid''\<rparr>)) = Some ''8''"
proof -
  let ?paid = "play\<lparr>level := Some ''paid''\<rparr>"
  have v: "logs_view [play, visit, ?paid] = [play, ?paid]"
    by code_simp
  have m: "play \<in> set (logs_view [play, visit, ?paid])" "?paid \<in> set (logs_view [play, visit, ?paid])"
    by (simp_all add: v)
  have u: "userId play = Some ''8''" "userId ?paid = Some ''8''"
    by (simp_all add: play_def)
  have l: "level play \<noteq> level ?paid"
    by (simp add: play_def)
  from users_table_full_row[OF m u l] l v show ?thesis by blast
qed

section \<open>Writes\<close>

text \<open>
  Claim C8. Every write of a table replaces what its destination held, and the layouts
  are: Song by (year, artist_id), Time by (year, month), Artist, User and Event without
  partition columns. A run of \<open>main\<close> that returns leaves exactly the five new tables at
  the five destinations, in these layouts, whatever was there before; and after any run,
  returned or failed, a path whose content changed is one of the five and holds a whole
  table of its kind in its layout.
\<close>

theorem main_overwrites_partitioned:
  "(main spark st = Ok st' \<longrightarrow>
      (\<exists>cat df tt.
           json_songs spark ''s3a://udacity-dend/song_data/*/*/*/*.json'' = Some cat
         \<and> json_logs spark ''s3a://udacity-dend/log_data/*/*/*.json'' = Some df
         \<and> time_table (time_zone spark) df = Inr tt
         \<and> st' = st(''s3a://udacity-dend/outputsongs/'' \<mapsto>
                       \<lparr>partition_cols = [''year'', ''artist_id''], data = Songs (songs_table cat)\<rparr>,
                     ''s3a://udacity-dend/outputartists/'' \<mapsto>
                       \<lparr>partition_cols = [], data = Artists (artists_table cat)\<rparr>,
                     ''s3a://udacity-dend/outputusers/'' \<mapsto>
                       \<lparr>partition_cols = [], data = Users (users_table (logs_view df))\<rparr>,
                     ''s3a://udacity-dend/outputtime/'' \<mapsto>
                       \<lparr>partition_cols = [''year'', ''month''], data = Time tt\<rparr>,
                     ''s3a://udacity-dend/outputsongplays/'' \<mapsto>
                       \<lparr>partition_cols = [],
                        data = Songplays (songplays_table (time_zone spark) (logs_view df)
                                            (songs_table cat))\<rparr>)))
   \<and> (storage_of (main spark st) p = st p
      \<or> (p = ''s3a://udacity-dend/outputsongs/''
           \<and> (\<exists>t. storage_of (main spark st) p
                  = Some \<lparr>partition_cols = [''year'', ''artist_id''], data = Songs t\<rparr>))
      \<or> (p = ''s3a://udacity-dend/outputartists/''
           \<and> (\<exists>t. storage_of (main spark st) p = Some \<lparr>partition_cols = [], data = Artists t\<rparr>))
      \<or> (p = ''s3a://udacity-dend/outputusers/''
           \<and> (\<exists>t. storage_of (main spark st) p = Some \<lparr>partition_cols = [], data = Users t\<rparr>))
      \<or> (p = ''s3a://udacity-dend/outputtime/''
           \<and> (\<exists>t. storage_of (main spark st) p
                  = Some \<lparr>partition_cols = [''year'', ''month''], data = Time t\<rparr>))
      \<or> (p = ''s3a://udacity-dend/outputsongplays/''
           \<and> (\<exists>t. storage_of (main spark st) p
                  = Some \<lparr>partition_cols = [], data = Songplays t\<rparr>)))"
proof (rule conjI)
  show "main spark st = Ok st' \<longrightarrow>
      (\<exists>cat df tt.
           json_songs spark ''s3a://udacity-dend/song_data/*/*/*/*.json'' = Some cat
         \<and> json_logs spark ''s3a://udacity-dend/log_data/*/*/*.json'' = Some df
         \<and> time_table (time_zone spark) df = Inr tt
         \<and> st' = st(''s3a://udacity-dend/outputsongs/'' \<mapsto>
                       \<lparr>partition_cols = [''year'', ''artist_id''], data = Songs (songs_table cat)\<rparr>,
                     ''s3a://udacity-dend/outputartists/'' \<mapsto>
                       \<lparr>partition_cols = [], data = Artists (artists_table cat)\<rparr>,
                     ''s3a://udacity-dend/outputusers/'' \<mapsto>
                       \<lparr>partition_cols = [], data = Users (users_table (logs_view df))\<rparr>,
                     ''s3a://udacity-dend/outputtime/'' \<mapsto>
                       \<lparr>partition_cols = [''year'', ''month''], data = Time tt\<rparr>,
                     ''s3a://udacity-dend/outputsongplays/'' \<mapsto>
                       \<lparr>partition_cols = [],
                        data = Songplays (songplays_table (time_zone spark) (logs_view df)
                                            (songs_table cat))\<rparr>))"
    by (rule impI) (rule main_Ok)
next
  show "storage_of (main spark st) p = st p
      \<or> (p = ''s3a://udacity-dend/outputsongs/''
           \<and> (\<exists>t. storage_of (main spark st) p
                  = Some \<lparr>partition_cols = [''year'', ''artist_id''], data = Songs t\<rparr>))
      \<or> (p = ''s3a://udacity-dend/outputartists/''
           \<and> (\<exists>t. storage_of (main spark st) p = Some \<lparr>partition_cols = [], data = Artists t\<rparr>))
      \<or> (p = ''s3a://udacity-dend/outputusers/''
           \<and> (\<exists>t. storage_of (main spark st) p = Some \<lparr>partition_cols = [], data = Users t\<rparr>))
      \<or> (p = ''s3a://udacity-dend/outputtime/''
           \<and> (\<exists>t. storage_of (main spark st) p
                  = Some \<lparr>partition_cols = [''year'', ''month''], data = Time t\<rparr>))
      \<or> (p = ''s3a://udacity-dend/outputsongplays/''
           \<and> (\<exists>t. storage_of (main spark st) p
                  = Some \<lparr>partition_cols = [], data = Songplays t\<rparr>))"
    by (rule main_any_outcome)
qed

text \<open>
  The theorem at a run over two records and one catalog entry, from a storage that
  already holds a User table at the Song destination: the run returns, and the five
  destinations have the layouts of the claim; the Song destination holds the Song table.
\<close>

theorem main_overwrites_partitioned_witness:
  "error_of (main (session [play, visit] [track ''S1'' ''You Gotta Be'' ''A1''])
       [''s3a://udacity-dend/outputsongs/'' \<mapsto> \<lparr>partition_cols = [], data = Users []\<rparr>]) = None
   \<and> storage_of (main (session [play, visit] [track ''S1'' ''You Gotta Be'' ''A1''])
         [''s3a://udacity-dend/outputsongs/'' \<mapsto> \<lparr>partition_cols = [], data = Users []\<rparr>])
        ''s3a://udacity-dend/outputsongs/''
       = Some \<lparr>partition_cols = [''year'', ''artist_id''],
               data = Songs (songs_table [track ''S1'' ''You Gotta Be'' ''A1''])\<rparr>
   \<and> map_option partition_cols
        (storage_of (main (session [play, visit] [track ''S1'' ''You Gotta Be'' ''A1''])
           [''s3a://udacity-dend/outputsongs/'' \<mapsto> \<lparr>partition_cols = [], data = Users []\<rparr>])
          ''s3a://udacity-dend/outputartists/'') = Some []
   \<and> map_option partition_cols
        (storage_of (main (session [play, visit] [track ''S1'' ''You Gotta Be'' ''A1''])
           [''s3a://udacity-dend/outputsongs/'' \<mapsto> \<lparr>partition_cols = [], data = Users []\<rparr>])
          ''s3a://udacity-dend/outputusers/'') = Some []
   \<and> map_option partition_cols
        (storage_of (main (session [play, visit] [track ''S1'' ''You Gotta Be'' ''A1''])
           [''s3a://udacity-dend/outputsongs/'' \<mapsto> \<lparr>partition_cols = [], data = Users []\<rparr>])
          ''s3a://udacity-dend/outputtime/'') = Some [''year'', ''month'']
   \<and> map_option partition_cols
        (storage_of (main (session [play, visit] [track ''S1'' ''You Gotta Be'' ''A1''])
           [''s3a://udacity-dend/outputsongs/'' \<mapsto> \<lparr>partition_cols = [], data = Users []\<rparr>])
          ''s3a://udacity-dend/outputsongplays/'') = Some []"
proof -
  let ?S = "session [play, visit] [track ''S1'' ''You Gotta Be'' ''A1'']"
  let ?st = "[''s3a://udacity-dend/outputsongs/'' \<mapsto> \<lparr>partition_cols = [], data = Users []\<rparr>]"
  have ok: "error_of (main ?S ?st) = None"
    by code_simp
  then obtain st' where r: "main ?S ?st = Ok st'"
    by (cases "main ?S ?st") simp_all
  have cat: "json_songs ?S ''s3a://udacity-dend/song_data/*/*/*/*.json''
      = Some [track ''S1'' ''You Gotta Be'' ''A1'']"
    by (simp add: session_def)
  from main_overwrites_partitioned[of ?S ?st st' "[]"] r
  obtain c df tt where c: "json_songs ?S ''s3a://udacity-dend/song_data/*/*/*/*.json'' = Some c"
    and s: "st' = ?st(''s3a://udacity-dend/outputsongs/'' \<mapsto>
                       \<lparr>partition_cols = [''year'', ''artist_id''], data = Songs (songs_table c)\<rparr>,
                     ''s3a://udacity-dend/outputartists/'' \<mapsto>
                       \<lparr>partition_cols = [], data = Artists (artists_table c)\<rparr>,
                     ''s3a://udacity-dend/outputusers/'' \<mapsto>
                       \<lparr>partition_cols = [], data = Users (users_table (logs_view df))\<rparr>,
                     ''s3a://udacity-dend/outputtime/'' \<mapsto>
                       \<lparr>partition_cols = [''year'', ''month''], data = Time tt\<rparr>,
                     ''s3a://udacity-dend/outputsongplays/'' \<mapsto>
                       \<lparr>partition_cols = [],
                        data = Songplays (songplays_table (time_zone ?S) (logs_view df)
                                  (songs_table c))\<rparr>)"
    by blast
  from c cat have "c = [track ''S1'' ''You Gotta Be'' ''A1'']"
    by simp
  with s have st': "st' = ?st(''s3a://udacity-dend/outputsongs/'' \<mapsto>
                       \<lparr>partition_cols = [''year'', ''artist_id''],
                        data = Songs (songs_table [track ''S1'' ''You Gotta Be'' ''A1''])\<rparr>,
                     ''s3a://udacity-dend/outputartists/'' \<mapsto>
                       \<lparr>partition_cols = [],
                        data = Artists (artists_table [track ''S1'' ''You Gotta Be'' ''A1''])\<rparr>,
                     ''s3a://udacity-dend/outputusers/'' \<mapsto>
                       \<lparr>partition_cols = [], data = Users (users_table (logs_view df))\<rparr>,
                     ''s3a://udacity-dend/outputtime/'' \<mapsto>
                       \<lparr>partition_cols = [''year'', ''month''], data = Time tt\<rparr>,
                     ''s3a://udacity-dend/outputsongplays/'' \<mapsto>
                       \<lparr>partition_cols = [],
                        data = Songplays (songplays_table (time_zone ?S) (logs_view df)
                                  (songs_table [track ''S1'' ''You Gotta Be'' ''A1'']))\<rparr>)"
    by (simp only:)
  have "storage_of (main ?S ?st) = st'"
    by (simp add: r)
  then show ?thesis using ok by (simp add: st')
qed

section \<open>Failure of the fact step\<close>

text \<open>
  Claim C9. When the Song table cannot be read back (its path is absent or unreadable; the
  writes of User and Time do not touch it, so this is a matter of the storage the function
  starts from), \<^verbatim>\<open>process_log_data\<close> fails and leaves the Event destination as it was; and
  when its steps before the read succeed, the failure is the storage error of that read,
  raised right after the writes of User and Time.
\<close>

theorem song_read_failure_aborts:
  assumes "read_parquet spark (output_data @ ''songs/'') st = Inl e"
  shows "(\<exists>e' st'. process_log_data spark input_data output_data st = Failed e' st'
            \<and> st' (output_data @ ''songplays/'') = st (output_data @ ''songplays/''))
       \<and> (\<forall>df tt. json_logs spark (input_data @ ''log_data/*/*/*.json'') = Some df
              \<and> writable spark (output_data @ ''users/'')
              \<and> time_table (time_zone spark) df = Inr tt
              \<and> writable spark (output_data @ ''time/'')
            \<longrightarrow> process_log_data spark input_data output_data st
                  = Failed (StorageError Read (output_data @ ''songs/''))
                      (st(output_data @ ''users/'' \<mapsto>
                            \<lparr>partition_cols = [], data = Users (users_table (logs_view df))\<rparr>,
                          output_data @ ''time/'' \<mapsto>
                            \<lparr>partition_cols = [''year'', ''month''], data = Time tt\<rparr>)))"
proof -
  have later: "read_parquet spark (output_data @ ''songs/'')
                 (st(output_data @ ''users/'' \<mapsto> u, output_data @ ''time/'' \<mapsto> t))
               = Inl (StorageError Read (output_data @ ''songs/''))" for u t
    using assms read_parquet_Inl[OF assms] by (simp add: read_parquet_frame)
  show ?thesis
    by (auto simp: process_log_data_def parquet_overwrite Let_def later
             split: option.splits sum.splits)
qed

text \<open>
  The theorem at a storage where nothing was written yet: the run fails on the read of
  the Song table, after writing User and Time, and there is no Event table.
\<close>

theorem song_read_failure_aborts_witness:
  "read_parquet (session [play, visit] []) ''s3a://udacity-dend/outputsongs/'' Map.empty
     = Inl (StorageError Read ''s3a://udacity-dend/outputsongs/'')
   \<and> process_log_data (session [play, visit] []) ''s3a://udacity-dend/''
        ''s3a://udacity-dend/output'' Map.empty
       = Failed (StorageError Read ''s3a://udacity-dend/outputsongs/'')
           [''s3a://udacity-dend/outputusers/'' \<mapsto>
              \<lparr>partition_cols = [], data = Users (users_table (logs_view [play, visit]))\<rparr>,
            ''s3a://udacity-dend/outputtime/'' \<mapsto>
              \<lparr>partition_cols = [''year'', ''month''],
               data = Time [time_row_of utc (Some 1541105830796000),
                            time_row_of utc (Some 1541106106796000)]\<rparr>]
   \<and> storage_of (process_log_data (session [play, visit] []) ''s3a://udacity-dend/''
        ''s3a://udacity-dend/output'' Map.empty) ''s3a://udacity-dend/outputsongplays/'' = None"
proof -
  let ?S = "session [play, visit] []"
  have h: "read_parquet ?S (''s3a://udacity-dend/output'' @ ''songs/'') Map.empty
      = Inl (StorageError Read ''s3a://udacity-dend/outputsongs/'')"
    by (simp add: read_parquet_def)
  have j: "json_logs ?S (''s3a://udacity-dend/'' @ ''log_data/*/*/*.json'') = Some [play, visit]"
    by (simp add: session_def)
  have w: "writable ?S (''s3a://udacity-dend/output'' @ ''users/'')"
      "writable ?S (''s3a://udacity-dend/output'' @ ''time/'')"
    by (simp_all add: session_def)
  have "time_table utc [play, visit]
     = Inr [time_row_of utc (Some 1541105830796000), time_row_of utc (Some 1541106106796000)]"
    by code_simp
  then have t: "time_table (time_zone ?S) [play, visit]
     = Inr [time_row_of utc (Some 1541105830796000), time_row_of utc (Some 1541106106796000)]"
    by (simp add: session_def)
  from song_read_failure_aborts[OF h, of "''s3a://udacity-dend/''"] j w t
  have r: "process_log_data ?S ''s3a://udacity-dend/'' ''s3a://udacity-dend/output'' Map.empty
       = Failed (StorageError Read (''s3a://udacity-dend/output'' @ ''songs/''))
           (Map.empty(''s3a://udacity-dend/output'' @ ''users/'' \<mapsto>
              \<lparr>partition_cols = [], data = Users (users_table (logs_view [play, visit]))\<rparr>,
            ''s3a://udacity-dend/output'' @ ''time/'' \<mapsto>
              \<lparr>partition_cols = [''year'', ''month''],
               data = Time [time_row_of utc (Some 1541105830796000),
                            time_row_of utc (Some 1541106106796000)]\<rparr>))"
    by blast
  from h show ?thesis by (simp add: r)
qed

text \<open>
  Claim C10. \<^verbatim>\<open>process_log_data\<close> writes User and Time before it reads the Song table
  back. So whenever it fails in the fact step (on the read of \<^verbatim>\<open>songs/\<close>, in the query over
  it, or on the write of \<^verbatim>\<open>songplays/\<close>), the User and Time destinations hold the new
  tables and the Event destination holds what it held before the run.
\<close>

theorem fact_step_failure_leaves_dimensions:
  assumes "process_log_data spark input_data output_data st = Failed e st'"
    and "fact_step_error output_data e"
  shows "\<exists>df tt. json_logs spark (input_data @ ''log_data/*/*/*.json'') = Some df
           \<and> time_table (time_zone spark) df = Inr tt
           \<and> st' = st(output_data @ ''users/'' \<mapsto>
                         \<lparr>partition_cols = [], data = Users (users_table (logs_view df))\<rparr>,
                       output_data @ ''time/'' \<mapsto>
                         \<lparr>partition_cols = [''year'', ''month''], data = Time tt\<rparr>)
           \<and> st' (output_data @ ''songplays/'') = st (output_data @ ''songplays/'')"
  using assms
  by (auto simp: process_log_data_def parquet_overwrite Let_def
           dest!: time_table_Inl
           split: option.splits if_splits sum.splits)

text \<open>
  The theorem at a run whose Event destination cannot be written, over a storage that
  holds a Song table and an old Event table: the run fails on that write, the User table
  is the new one, and the old Event table is still there.
\<close>

theorem fact_step_failure_leaves_dimensions_witness:
  "error_of (process_log_data
       ((session [play, visit] [])\<lparr>writable := (\<lambda>p. p \<noteq> ''s3a://udacity-dend/outputsongplays/'')\<rparr>)
       ''s3a://udacity-dend/'' ''s3a://udacity-dend/output''
       [''s3a://udacity-dend/outputsongs/'' \<mapsto>
          \<lparr>partition_cols = [''year'', ''artist_id''], data = Songs []\<rparr>,
        ''s3a://udacity-dend/outputsongplays/'' \<mapsto> \<lparr>partition_cols = [], data = Songplays []\<rparr>])
     = Some (StorageError Write ''s3a://udacity-dend/outputsongplays/'')
   \<and> fact_step_error ''s3a://udacity-dend/output''
        (StorageError Write ''s3a://udacity-dend/outputsongplays/'')
   \<and> storage_of (process_log_data
       ((session [play, visit] [])\<lparr>writable := (\<lambda>p. p \<noteq> ''s3a://udacity-dend/outputsongplays/'')\<rparr>)
       ''s3a://udacity-dend/'' ''s3a://udacity-dend/output''
       [''s3a://udacity-dend/outputsongs/'' \<mapsto>
          \<lparr>partition_cols = [''year'', ''artist_id''], data = Songs []\<rparr>,
        ''s3a://udacity-dend/outputsongplays/'' \<mapsto> \<lparr>partition_cols = [], data = Songplays []\<rparr>])
       ''s3a://udacity-dend/outputusers/''
     = Some \<lparr>partition_cols = [], data = Users (users_table (logs_view [play, visit]))\<rparr>
   \<and> storage_of (process_log_data
       ((session [play, visit] [])\<lparr>writable := (\<lambda>p. p \<noteq> ''s3a://udacity-dend/outputsongplays/'')\<rparr>)
       ''s3a://udacity-dend/'' ''s3a://udacity-dend/output''
       [''s3a://udacity-dend/outputsongs/'' \<mapsto>
          \<lparr>partition_cols = [''year'', ''artist_id''], data = Songs []\<rparr>,
        ''s3a://udacity-dend/outputsongplays/'' \<mapsto> \<lparr>partition_cols = [], data = Songplays []\<rparr>])
       ''s3a://udacity-dend/outputsongplays/''
     = Some \<lparr>partition_cols = [], data = Songplays []\<rparr>"
proof -
  let ?S = "(session [play, visit] [])\<lparr>writable := (\<lambda>p. p \<noteq> ''s3a://udacity-dend/outputsongplays/'')\<rparr>"
  let ?st = "[''s3a://udacity-dend/outputsongs/'' \<mapsto>
                \<lparr>partition_cols = [''year'', ''artist_id''], data = Songs []\<rparr>,
              ''s3a://udacity-dend/outputsongplays/'' \<mapsto>
                \<lparr>partition_cols = [], data = Songplays []\<rparr>]"
  let ?run = "process_log_data ?S ''s3a://udacity-dend/'' ''s3a://udacity-dend/output'' ?st"
  have e: "error_of ?run = Some (StorageError Write ''s3a://udacity-dend/outputsongplays/'')"
    by code_simp
  then obtain st' where r: "?run = Failed (StorageError Write ''s3a://udacity-dend/outputsongplays/'') st'"
    by (cases ?run) simp_all
  have f: "fact_step_error ''s3a://udacity-dend/output''
        (StorageError Write ''s3a://udacity-dend/outputsongplays/'')"
    by (simp add: fact_step_error_def)
  have j: "json_logs ?S (''s3a://udacity-dend/'' @ ''log_data/*/*/*.json'') = Some [play, visit]"
    by (simp add: session_def)
  from fact_step_failure_leaves_dimensions[OF r f] j
  obtain tt where st': "st' = ?st(''s3a://udacity-dend/output'' @ ''users/'' \<mapsto>
                         \<lparr>partition_cols = [], data = Users (users_table (logs_view [play, visit]))\<rparr>,
                       ''s3a://udacity-dend/output'' @ ''time/'' \<mapsto>
                         \<lparr>partition_cols = [''year'', ''month''], data = Time tt\<rparr>)"
    by auto
  have "storage_of ?run = st'"
    by (simp add: r)
  then show ?thesis using e f by (simp add: st')
qed

end
